theory Spec2Isabelle
  imports Main "HOL-Library.Word"
begin

section \<open>JavaScript strings\<close>

text \<open>
  A JavaScript string is a sequence of 16-bit code units. \<open>charAt\<close>, \<open>slice\<close>,
  \<open>===\<close>, lodash's \<open>startsWith\<close> and a regular expression without the \<open>u\<close> flag
  all work on code units, so the model is a list of 16-bit words. The literals of
  \<^verbatim>\<open>index.js\<close> are ASCII; \<open>str\<close> writes them as code units.
\<close>

type_synonym jsstring = "16 word list"

definition str :: "string \<Rightarrow> jsstring" where
  "str s = map of_char s"

text \<open>
  \<open>toUpperCase\<close> and \<open>toLowerCase\<close> are built-ins driven by the Unicode case tables.
  On a string of ASCII code units they map \<open>a..z\<close> to \<open>A..Z\<close> (and back) unit by unit
  and leave every other unit alone. On any other string the result comes from the
  Unicode tables, which are not part of the program: they are a parameter of the
  model, a record of the two conversions as the platform computes them.
\<close>

record unicode =
  to_upper :: "jsstring \<Rightarrow> jsstring"
  to_lower :: "jsstring \<Rightarrow> jsstring"

definition is_ascii :: "16 word \<Rightarrow> bool" where
  "is_ascii c = (c < 0x80)"

definition ascii_upper :: "16 word \<Rightarrow> 16 word" where
  "ascii_upper c = (if 0x61 \<le> c \<and> c \<le> 0x7A then c - 0x20 else c)"

definition ascii_lower :: "16 word \<Rightarrow> 16 word" where
  "ascii_lower c = (if 0x41 \<le> c \<and> c \<le> 0x5A then c + 0x20 else c)"

definition toUpperCase :: "unicode \<Rightarrow> jsstring \<Rightarrow> jsstring" where
  "toUpperCase uc s = (if list_all is_ascii s then map ascii_upper s else to_upper uc s)"

definition toLowerCase :: "unicode \<Rightarrow> jsstring \<Rightarrow> jsstring" where
  "toLowerCase uc s = (if list_all is_ascii s then map ascii_lower s else to_lower uc s)"

text \<open>
  \<open>s.charAt(i)\<close> is the one-unit string at index \<open>i\<close>, or the empty string when \<open>i\<close>
  is out of range; \<open>s.slice(i)\<close> is the rest of \<open>s\<close> from index \<open>i\<close> (both for an
  index that is not negative, as in the source).
\<close>

definition charAt :: "jsstring \<Rightarrow> nat \<Rightarrow> jsstring" where
  "charAt s i = take 1 (drop i s)"

definition slice :: "jsstring \<Rightarrow> nat \<Rightarrow> jsstring" where
  "slice s i = drop i s"

text \<open>
  lodash's \<open>startsWith(string, target)\<close> with the default position 0 compares
  \<open>string.slice(0, target.length)\<close> with \<open>target\<close>.
\<close>

definition startsWith :: "jsstring \<Rightarrow> jsstring \<Rightarrow> bool" where
  "startsWith string target = (take (length target) string = target)"

section \<open>The naming transform\<close>

text \<open>
  The character classes of the regular expression \<^verbatim>\<open>/([a-z0-9])([A-Z])/g\<close>.
\<close>

definition re_lower_digit :: "16 word \<Rightarrow> bool" where
  "re_lower_digit c = ((0x61 \<le> c \<and> c \<le> 0x7A) \<or> (0x30 \<le> c \<and> c \<le> 0x39))"

definition re_upper :: "16 word \<Rightarrow> bool" where
  "re_upper c = (0x41 \<le> c \<and> c \<le> 0x5A)"

text \<open>
  \<^verbatim>\<open>string.replace(/([a-z0-9])([A-Z])/g, '$1 $2')\<close>: the global replace scans from
  the left. Where the two units at the current position match, it emits the first,
  a space (0x20) and the second, and goes on after the match; elsewhere it copies one
  unit and moves one position on.
\<close>

fun replace_camel :: "jsstring \<Rightarrow> jsstring" where
  "replace_camel (x # y # rest) =
     (if re_lower_digit x \<and> re_upper y then x # 0x20 # y # replace_camel rest
      else x # replace_camel (y # rest))"
| "replace_camel [x] = [x]"
| "replace_camel [] = []"

text \<open>
  \<^verbatim>\<open>
  function snakeCaseToWords(string) {
    string = string.charAt(0).toUpperCase() + string.slice(1)
    return string.replace(/([a-z0-9])([A-Z])/g, '$1 $2')
  }
  \<close>
\<close>

definition snakeCaseToWords :: "unicode \<Rightarrow> jsstring \<Rightarrow> jsstring" where
  "snakeCaseToWords uc string =
     (let string = toUpperCase uc (charAt string 0) @ slice string 1
      in replace_camel string)"

text \<open>
  The transform as the specification words it: capitalize the first character, then
  put one space at every position where a lowercase letter or digit is immediately
  followed by an uppercase letter, and change nothing else. The letters and digits are
  those of an identifier, given here by their alphabets; a character is a code unit.
\<close>

definition lowercase_letter :: "16 word \<Rightarrow> bool" where
  "lowercase_letter c = (c \<in> set (str ''abcdefghijklmnopqrstuvwxyz''))"

definition uppercase_letter :: "16 word \<Rightarrow> bool" where
  "uppercase_letter c = (c \<in> set (str ''ABCDEFGHIJKLMNOPQRSTUVWXYZ''))"

definition digit :: "16 word \<Rightarrow> bool" where
  "digit c = (c \<in> set (str ''0123456789''))"

definition capitalize_first :: "unicode \<Rightarrow> jsstring \<Rightarrow> jsstring" where
  "capitalize_first uc s = (case s of [] \<Rightarrow> [] | c # cs \<Rightarrow> toUpperCase uc [c] @ cs)"

definition boundary_at :: "jsstring \<Rightarrow> nat \<Rightarrow> bool" where
  "boundary_at t i =
     (Suc i < length t \<and> (lowercase_letter (t ! i) \<or> digit (t ! i)) \<and>
      uppercase_letter (t ! Suc i))"

definition space_boundaries :: "jsstring \<Rightarrow> jsstring" where
  "space_boundaries t =
     concat (map (\<lambda>i. if boundary_at t i then [t ! i, 0x20] else [t ! i]) [0..<length t])"

definition label_spec :: "unicode \<Rightarrow> jsstring \<Rightarrow> jsstring" where
  "label_spec uc s = space_boundaries (capitalize_first uc s)"


text \<open>Tables that leave every string with a unit outside ASCII as it is.\<close>

definition plain_tables :: unicode where
  "plain_tables = \<lparr>to_upper = (\<lambda>s. s), to_lower = (\<lambda>s. s)\<rparr>"




section \<open>JavaScript values and objects\<close>

text \<open>
  The values the program builds. An object is the list of its own properties in
  creation order, which is the order in which \<open>JSON.stringify\<close> and the spread
  syntax enumerate them (no property name of the program is an array index).
  \<open>Builtin k\<close> is the member \<open>k\<close> that every object literal inherits from
  \<open>Object.prototype\<close>.
\<close>

datatype jsvalue =
    Undefined
  | Null
  | Str jsstring
  | Num int
  | Bool bool
  | Arr "jsvalue list"
  | Obj "(jsstring \<times> jsvalue) list"
  | Builtin jsstring

type_synonym jsobject = "(jsstring \<times> jsvalue) list"

abbreviation lit :: "string \<Rightarrow> jsvalue" where
  "lit s \<equiv> Str (str s)"

text \<open>
  Writing a property: an existing property keeps its place and takes the new value, a
  new one is added last.
\<close>

fun put :: "jsstring \<Rightarrow> jsvalue \<Rightarrow> jsobject \<Rightarrow> jsobject" where
  "put k v [] = [(k, v)]"
| "put k v ((k', v') # ps) = (if k' = k then (k, v) # ps else (k', v') # put k v ps)"

text \<open>
  \<^verbatim>\<open>{ ...target, ...source }\<close> continued from a literal \<open>target\<close>: the own
  properties of \<open>source\<close> are written to it one after the other.
\<close>

definition spread :: "jsobject \<Rightarrow> jsobject \<Rightarrow> jsobject" where
  "spread target source = fold (\<lambda>(k, v). put k v) source target"

text \<open>
  Reading \<^verbatim>\<open>ob[k]\<close> on an object literal: an own property, else what the
  prototype chain has under that name, else \<open>undefined\<close>.
\<close>

definition object_prototype :: "jsstring list" where
  "object_prototype = map str
     [''constructor'', ''__defineGetter__'', ''__defineSetter__'', ''hasOwnProperty'',
      ''__lookupGetter__'', ''__lookupSetter__'', ''isPrototypeOf'',
      ''propertyIsEnumerable'', ''toString'', ''valueOf'', ''__proto__'',
      ''toLocaleString'']"

definition get_property :: "jsobject \<Rightarrow> jsstring \<Rightarrow> jsvalue" where
  "get_property ob k =
     (case map_of ob k of
        Some v \<Rightarrow> v
      | None \<Rightarrow> if k \<in> set object_prototype then Builtin k else Undefined)"

section \<open>The metadata of a component\<close>

text \<open>
  The component as the metadata provider returns it; the program reads its \<open>name\<close>
  and its \<open>props\<close>.
\<close>

record 'p component =
  name :: jsstring
  props :: "'p list"

text \<open>
  A declared property as the metadata provider hands it over. The program reads its
  \<open>name\<close> and its \<open>type\<close>; whatever else the provider records about a property is
  the extension of the record.
\<close>

record vue_prop =
  name :: jsstring
  type :: jsstring

section \<open>The field type resolver\<close>

text \<open>
  \<^verbatim>\<open>
  function getAcfFieldType(prop) {
    if (startsWith(prop.name, 'image')) { return 'image' }
    if (prop.name === 'button') { return 'acfe_advanced_link' }
    if (prop.name === 'body') { return 'wysiwyg' }
    if (prop.name === 'align' || prop.name === 'halign' ||
        prop.name === 'valign' || prop.name === 'text-align') { return 'button_group' }
    if (prop.name === 'buttons') { return 'repeater' }
    if (prop.name === 'images') { return 'gallery' }
    return { string: 'text', boolean: 'true_false', number: 'number',
             array: 'repeater' }[prop.type.toLowerCase()]
  }
  \<close>
\<close>

definition type_table :: jsobject where
  "type_table =
     [(str ''string'', lit ''text''),
      (str ''boolean'', lit ''true_false''),
      (str ''number'', lit ''number''),
      (str ''array'', lit ''repeater'')]"

definition getAcfFieldType :: "unicode \<Rightarrow> 'a vue_prop_scheme \<Rightarrow> jsvalue" where
  "getAcfFieldType uc prop =
     (if startsWith (name prop) (str ''image'') then lit ''image''
      else if name prop = str ''button'' then lit ''acfe_advanced_link''
      else if name prop = str ''body'' then lit ''wysiwyg''
      else if name prop = str ''align'' \<or> name prop = str ''halign'' \<or>
              name prop = str ''valign'' \<or> name prop = str ''text-align''
        then lit ''button_group''
      else if name prop = str ''buttons'' then lit ''repeater''
      else if name prop = str ''images'' then lit ''gallery''
      else get_property type_table (toLowerCase uc (type prop)))"

section \<open>The field config builder\<close>

text \<open>
  \<open>getAcfFieldConfig\<close>: the object \<open>config\<close> of label, name and type, the object
  \<open>extra\<close> that the successive tests overwrite, and their spread into the result.
  \<^verbatim>\<open>
  function getAcfFieldConfig(prop) {
    const name = prop.name
    const type = getAcfFieldType(prop)
    const config = { label: snakeCaseToWords(name), name, type }
    let extra = {}
    if (type === 'wysiwyg') {
      extra = { tabs: 'visual', toolbar: 'simple', media_upload: 0, delay: 1 } }
    if (type === 'true_false') { extra = { ui: 1 } }
    if (type === 'image' || type === 'images') {
      extra = { return_format: 'array', preview_size: 'thumbnail' } }
    if (type === 'repeater') { extra = { layout: 'row' } }
    if (name === 'valign') {
      extra = { choices: { start: 'Top', center: 'Center', end: 'Bottom' } } }
    if (name === 'text-align' || name === 'halign' || name === 'align') {
      extra = { choices: { left: 'Left', center: 'Center', right: 'Right' } } }
    return { ...config, ...extra }
  }
  \<close>
\<close>

definition getAcfFieldConfig :: "unicode \<Rightarrow> 'a vue_prop_scheme \<Rightarrow> jsobject" where
  "getAcfFieldConfig uc prop =
     (let name = vue_prop.name prop;
          type = getAcfFieldType uc prop;
          config = [(str ''label'', Str (snakeCaseToWords uc name)),
                    (str ''name'', Str name),
                    (str ''type'', type)];
          extra = [];
          extra = (if type = lit ''wysiwyg''
                   then [(str ''tabs'', lit ''visual''), (str ''toolbar'', lit ''simple''),
                         (str ''media_upload'', Num 0), (str ''delay'', Num 1)]
                   else extra);
          extra = (if type = lit ''true_false'' then [(str ''ui'', Num 1)] else extra);
          extra = (if type = lit ''image'' \<or> type = lit ''images''
                   then [(str ''return_format'', lit ''array''),
                         (str ''preview_size'', lit ''thumbnail'')]
                   else extra);
          extra = (if type = lit ''repeater'' then [(str ''layout'', lit ''row'')] else extra);
          extra = (if name = str ''valign''
                   then [(str ''choices'',
                          Obj [(str ''start'', lit ''Top''), (str ''center'', lit ''Center''),
                               (str ''end'', lit ''Bottom'')])]
                   else extra);
          extra = (if name = str ''text-align'' \<or> name = str ''halign'' \<or> name = str ''align''
                   then [(str ''choices'',
                          Obj [(str ''left'', lit ''Left''), (str ''center'', lit ''Center''),
                               (str ''right'', lit ''Right'')])]
                   else extra)
      in spread (spread [] config) extra)"

section \<open>The group config assembler\<close>

text \<open>
  The callback of \<open>parseComponent\<close> that receives the parsed component:
  \<^verbatim>\<open>
  const componentName = component.name
  const groupKey = `group_${componentName.toLowerCase()}_component`
  const fields = []
  for (const prop of component.props) {
    fields.push({ key: `${groupKey}_${prop.name}`, ...getAcfFieldConfig(prop) })
  }
  const config = { key: groupKey, title: `Component: ${componentName}`, fields,
    label_placement: 'left', active: false, acfe_categories: { component: 'component' } }
  \<close>
  \<open>push_fields\<close> is the loop, with the array \<open>fields\<close> as its accumulator
  \<open>fields'\<close>.
\<close>

definition groupKey :: "unicode \<Rightarrow> jsstring \<Rightarrow> jsstring" where
  "groupKey uc componentName = str ''group_'' @ toLowerCase uc componentName @ str ''_component''"

fun push_fields ::
  "unicode \<Rightarrow> jsstring \<Rightarrow> 'a vue_prop_scheme list \<Rightarrow> jsvalue list \<Rightarrow> jsvalue list" where
  "push_fields uc gk [] fields' = fields'"
| "push_fields uc gk (prop # rest) fields' =
     push_fields uc gk rest
       (fields' @ [Obj (spread [(str ''key'', Str (gk @ str ''_'' @ vue_prop.name prop))]
                          (getAcfFieldConfig uc prop))])"

definition parseComponent_config ::
  "unicode \<Rightarrow> ('a vue_prop_scheme, 'b) component_scheme \<Rightarrow> jsobject" where
  "parseComponent_config uc component =
     (let componentName = component.name component;
          gk = groupKey uc componentName;
          fields = push_fields uc gk (component.props component) []
      in [(str ''key'', Str gk),
          (str ''title'', Str (str ''Component: '' @ componentName)),
          (str ''fields'', Arr fields),
          (str ''label_placement'', lit ''left''),
          (str ''active'', Bool False),
          (str ''acfe_categories'', Obj [(str ''component'', lit ''component'')])])"

section \<open>Reading the built documents\<close>

text \<open>
  \<open>member v k\<close> is \<^verbatim>\<open>v[k]\<close> on an object and \<open>elements v\<close> the elements of an
  array. A field config is label, name and type followed by its auxiliary settings;
  \<open>auxiliary\<close> is what a config holds besides those three.
\<close>

definition member :: "jsvalue \<Rightarrow> jsstring \<Rightarrow> jsvalue" where
  "member v k = (case v of Obj ob \<Rightarrow> get_property ob k | _ \<Rightarrow> Undefined)"

definition elements :: "jsvalue \<Rightarrow> jsvalue list" where
  "elements v = (case v of Arr vs \<Rightarrow> vs | _ \<Rightarrow> [])"

definition auxiliary :: "jsobject \<Rightarrow> jsobject" where
  "auxiliary config =
     filter (\<lambda>(k, v). k \<noteq> str ''label'' \<and> k \<noteq> str ''name'' \<and> k \<noteq> str ''type'') config"

section \<open>The resolver as the specification words it\<close>

text \<open>
  The specification gives the resolver as an ordered list of rules on the name of the
  property, the first match winning, and a table from the lower-cased primitive type
  for the properties that no rule matches.
\<close>

definition name_rules :: "((jsstring \<Rightarrow> bool) \<times> string) list" where
  "name_rules =
     [(\<lambda>n. startsWith n (str ''image''), ''image''),
      (\<lambda>n. n = str ''button'', ''acfe_advanced_link''),
      (\<lambda>n. n = str ''body'', ''wysiwyg''),
      (\<lambda>n. n \<in> set (map str [''align'', ''halign'', ''valign'', ''text-align'']),
       ''button_group''),
      (\<lambda>n. n = str ''buttons'', ''repeater''),
      (\<lambda>n. n = str ''images'', ''gallery'')]"

fun first_match :: "(('a \<Rightarrow> bool) \<times> 'b) list \<Rightarrow> 'a \<Rightarrow> 'b option" where
  "first_match [] x = None"
| "first_match ((c, r) # rules) x = (if c x then Some r else first_match rules x)"

definition fallback_table :: "jsstring \<Rightarrow> string option" where
  "fallback_table =
     map_of [(str ''string'', ''text''), (str ''boolean'', ''true_false''),
             (str ''number'', ''number''), (str ''array'', ''repeater'')]"

text \<open>The names that some rule matches, and the closed set of field type tags.\<close>

definition name_rule :: "jsstring \<Rightarrow> bool" where
  "name_rule n =
     (startsWith n (str ''image'') \<or>
      n \<in> set (map str [''button'', ''body'', ''align'', ''halign'', ''valign'',
                         ''text-align'', ''buttons'', ''images'']))"

definition field_type_tags :: "jsvalue list" where
  "field_type_tags =
     map lit [''image'', ''acfe_advanced_link'', ''wysiwyg'', ''button_group'', ''repeater'',
              ''gallery'', ''text'', ''true_false'', ''number'']"

section \<open>Writing the document and reading it back\<close>

text \<open>
  \<open>jsonfile.writeFile\<close> writes \<open>JSON.stringify(config, null, 2)\<close>, and reading the
  document back is \<open>JSON.parse\<close> of that text. Both are built-ins; the model is
  their composition on values. \<open>JSON.stringify\<close> leaves out a property whose value
  is \<open>undefined\<close> or a function and writes \<open>null\<close> for such an element of an
  array; strings, numbers, booleans and \<open>null\<close> come back as they were, arrays and
  objects with their elements and properties in order. Of the inherited members only
  \<open>__proto__\<close> is not a function: it is the prototype object, which has no
  enumerable property of its own and is written as the empty object. For a value that
  is not written at all there is no text, and nothing but \<open>undefined\<close> to read.
\<close>

definition unwritten :: "jsvalue \<Rightarrow> bool" where
  "unwritten v =
     (case v of Undefined \<Rightarrow> True | Builtin k \<Rightarrow> k \<noteq> str ''__proto__'' | _ \<Rightarrow> False)"

fun json_roundtrip :: "jsvalue \<Rightarrow> jsvalue" where
  "json_roundtrip (Arr vs) =
     Arr (map (\<lambda>v. if unwritten v then Null else json_roundtrip v) vs)"
| "json_roundtrip (Obj ps) =
     Obj (map (\<lambda>p. (fst p, json_roundtrip (snd p))) (filter (\<lambda>p. \<not> unwritten (snd p)) ps))"
| "json_roundtrip (Builtin k) = (if k = str ''__proto__'' then Obj [] else Undefined)"
| "json_roundtrip v = v"

section \<open>A sample component\<close>

text \<open>The component of the specification's end-to-end example.\<close>

definition callout :: "vue_prop component" where
  "callout =
     \<lparr>component.name = str ''Callout'',
      props = [\<lparr>name = str ''body'', type = str ''string''\<rparr>,
               \<lparr>name = str ''imageHero'', type = str ''string''\<rparr>,
               \<lparr>name = str ''align'', type = str ''string''\<rparr>]\<rparr>"

section \<open>Facts about strings\<close>

lemma str_Nil: "str [] = []"
  by (simp add: str_def)

lemma length_str: "length (str s) = length s"
  by (simp add: str_def)

lemma str_append: "str a @ str b = str (a @ b)"
  by (simp add: str_def)

lemma take_str: "take n (str s) = str (take n s)"
  by (simp add: str_def take_map)

lemma drop_str: "drop n (str s) = str (drop n s)"
  by (simp add: str_def drop_map)

lemma of_char_less_256: "(of_char c :: nat) < 256"
proof -
  have "(of_char c :: nat) = of_char c mod 256"
    by (metis of_char_of char_of_char)
  then show ?thesis
    by (metis mod_less_divisor zero_less_numeral)
qed

lemma unat_of_char: "unat (of_char c :: 16 word) = of_char c"
proof -
  have "(of_char c :: 16 word) = of_nat (of_char c)"
    by (simp add: of_nat_of_char)
  moreover have "(of_char c :: nat) < 2 ^ 16"
    using of_char_less_256 [of c] by (rule less_trans) simp
  ultimately show ?thesis
    by (simp add: unat_of_nat)
qed

lemma of_char_word_inj: "(of_char c :: 16 word) = of_char d \<longleftrightarrow> c = d"
proof
  assume "(of_char c :: 16 word) = of_char d"
  then have "unat (of_char c :: 16 word) = unat (of_char d :: 16 word)"
    by simp
  then show "c = d"
    by (simp add: unat_of_char)
qed simp

lemma str_eq_iff: "str a = str b \<longleftrightarrow> a = b"
proof -
  have "inj (of_char :: char \<Rightarrow> 16 word)"
    by (rule injI) (simp add: of_char_word_inj)
  then show ?thesis
    by (simp add: str_def)
qed

text \<open>The definitions that evaluate a call on concrete strings.\<close>

lemmas js_eval = str_def startsWith_def toLowerCase_def toUpperCase_def charAt_def slice_def
  is_ascii_def ascii_lower_def ascii_upper_def re_lower_digit_def re_upper_def
  get_property_def type_table_def object_prototype_def spread_def Let_def

section \<open>Facts about the naming transform\<close>

text \<open>The classes of the regular expression are the alphabets of the specification.\<close>

lemma word_range:
  fixes c :: "16 word"
  assumes "a \<le> b" "b < 2 ^ 16"
  shows "(word_of_nat a \<le> c \<and> c \<le> word_of_nat b) \<longleftrightarrow> c \<in> set (map word_of_nat [a..<Suc b])"
proof
  assume h: "word_of_nat a \<le> c \<and> c \<le> word_of_nat b"
  have ua: "unat (word_of_nat a :: 16 word) = a" and ub: "unat (word_of_nat b :: 16 word) = b"
    using assms by (simp_all add: unat_of_nat)
  from h have "a \<le> unat c" "unat c \<le> b"
    by (simp_all add: word_le_nat_alt ua ub)
  moreover have "c = word_of_nat (unat c)"
    by simp
  ultimately show "c \<in> set (map word_of_nat [a..<Suc b])"
    by (metis atLeastLessThan_iff image_eqI le_imp_less_Suc set_map set_upt)
next
  assume "c \<in> set (map word_of_nat [a..<Suc b])"
  then obtain n where n: "c = word_of_nat n" "a \<le> n" "n \<le> b"
    by auto
  then have "unat c = n"
    using assms by (simp add: unat_of_nat)
  moreover have "unat (word_of_nat a :: 16 word) = a" "unat (word_of_nat b :: 16 word) = b"
    using assms by (simp_all add: unat_of_nat)
  ultimately show "word_of_nat a \<le> c \<and> c \<le> word_of_nat b"
    using n by (simp add: word_le_nat_alt)
qed

lemma upper_alphabet: "str ''ABCDEFGHIJKLMNOPQRSTUVWXYZ'' = map word_of_nat [65..<Suc 90]"
  by (simp add: str_def upt_rec)

lemma lower_alphabet: "str ''abcdefghijklmnopqrstuvwxyz'' = map word_of_nat [97..<Suc 122]"
  by (simp add: str_def upt_rec)

lemma digit_alphabet: "str ''0123456789'' = map word_of_nat [48..<Suc 57]"
  by (simp add: str_def upt_rec)

lemma re_upper_letters: "re_upper c \<longleftrightarrow> uppercase_letter c"
  using word_range [of 65 90 c]
  by (simp add: re_upper_def uppercase_letter_def upper_alphabet del: upt_Suc set_map)

lemma re_lower_digit_letters: "re_lower_digit c \<longleftrightarrow> lowercase_letter c \<or> digit c"
  using word_range [of 97 122 c] word_range [of 48 57 c]
  by (simp add: re_lower_digit_def lowercase_letter_def digit_def lower_alphabet digit_alphabet
      del: upt_Suc set_map)

lemma boundary_at_re:
  "boundary_at t i = (Suc i < length t \<and> re_lower_digit (t ! i) \<and> re_upper (t ! Suc i))"
  by (simp add: boundary_at_def re_lower_digit_letters re_upper_letters)

lemma upper_not_lower_digit: "re_upper c \<Longrightarrow> \<not> re_lower_digit c"
  by (auto simp: re_upper_def re_lower_digit_def word_le_nat_alt)



lemma replace_camel_step:
  "replace_camel (x # y # rest) =
     (if re_lower_digit x \<and> re_upper y then [x, 0x20] else [x]) @ replace_camel (y # rest)"
  by (cases rest) (auto simp: upper_not_lower_digit)

lemma boundary_at_Suc: "boundary_at (x # t) (Suc i) = boundary_at t i"
  by (simp add: boundary_at_re)

lemma space_boundaries_Cons:
  "space_boundaries (x # t) =
     (if boundary_at (x # t) 0 then [x, 0x20] else [x]) @ space_boundaries t"
proof -
  have "[0..<length (x # t)] = 0 # map Suc [0..<length t]"
    by (simp add: upt_conv_Cons map_Suc_upt del: upt_Suc)
  then show ?thesis
    by (simp add: space_boundaries_def boundary_at_Suc comp_def del: upt_Suc cong: if_cong)
qed

lemma space_boundaries_no_other_change:
  "filter (\<lambda>c. c \<noteq> 0x20) (space_boundaries t) = filter (\<lambda>c. c \<noteq> 0x20) t"
  by (induction t) (simp_all add: space_boundaries_def [of "[]"] space_boundaries_Cons)

lemma replace_camel_spec: "replace_camel t = space_boundaries t"
proof (induction t)
  case Nil
  show ?case by (simp add: space_boundaries_def)
next
  case (Cons x t)
  show ?case
  proof (cases t)
    case Nil
    then show ?thesis by (simp add: space_boundaries_def boundary_at_re)
  next
    case (Cons y rest)
    have "replace_camel (x # y # rest) =
        (if re_lower_digit x \<and> re_upper y then [x, 0x20] else [x]) @ space_boundaries (y # rest)"
      using Cons.IH Cons by (simp only: replace_camel_step)
    also have "\<dots> = space_boundaries (x # y # rest)"
      by (simp add: space_boundaries_Cons [of x] boundary_at_re)
    finally show ?thesis using Cons by simp
  qed
qed





lemma toUpperCase_Nil: "toUpperCase uc [] = []"
  by (simp add: toUpperCase_def)



lemma snakeCaseToWords_capitalize:
  "snakeCaseToWords uc s = replace_camel (capitalize_first uc s)"
  by (cases s) (simp_all add: snakeCaseToWords_def capitalize_first_def charAt_def slice_def
      toUpperCase_Nil)


section \<open>The naming transform: claims\<close>

text \<open>
  Claim C4. For every property name \<open>s\<close>, \<open>snakeCaseToWords\<close> returns \<open>s\<close> with its
  first character capitalized and one space inserted at every position where a
  lowercase letter or digit is immediately followed by an uppercase letter, and changes
  nothing else (\<open>label_spec\<close>): without its spaces the result is the capitalized
  name without its spaces. Hyphens stay: \<open>halign\<close> becomes \<open>Halign\<close>, \<open>textAlign\<close>
  becomes \<open>Text Align\<close>, \<open>image1\<close> becomes \<open>Image1\<close>, and \<open>text-align\<close> becomes
  \<open>Text-align\<close>.
\<close>

theorem snakeCaseToWords_label_spec:
  "snakeCaseToWords uc s = label_spec uc s \<and>
   filter (\<lambda>c. c \<noteq> 0x20) (snakeCaseToWords uc s) =
     filter (\<lambda>c. c \<noteq> 0x20) (capitalize_first uc s) \<and>
   snakeCaseToWords uc (str ''halign'') = str ''Halign'' \<and>
   snakeCaseToWords uc (str ''textAlign'') = str ''Text Align'' \<and>
   snakeCaseToWords uc (str ''image1'') = str ''Image1'' \<and>
   snakeCaseToWords uc (str ''text-align'') = str ''Text-align''"
proof -
  have "snakeCaseToWords uc s = label_spec uc s"
    by (simp add: snakeCaseToWords_capitalize label_spec_def replace_camel_spec)
  moreover have "filter (\<lambda>c. c \<noteq> 0x20) (snakeCaseToWords uc s) =
      filter (\<lambda>c. c \<noteq> 0x20) (capitalize_first uc s)"
    by (simp add: snakeCaseToWords_capitalize replace_camel_spec
        space_boundaries_no_other_change)
  moreover have "snakeCaseToWords uc (str ''halign'') = str ''Halign''"
    by (simp add: snakeCaseToWords_def js_eval)
  moreover have "snakeCaseToWords uc (str ''textAlign'') = str ''Text Align''"
    by (simp add: snakeCaseToWords_def js_eval)
  moreover have "snakeCaseToWords uc (str ''image1'') = str ''Image1''"
    by (simp add: snakeCaseToWords_def js_eval)
  moreover have "snakeCaseToWords uc (str ''text-align'') = str ''Text-align''"
    by (simp add: snakeCaseToWords_def js_eval)
  ultimately show ?thesis by simp
qed




section \<open>Facts about the resolver\<close>

lemma startsWith_str: "startsWith (str a) (str b) = (take (length b) a = b)"
  by (simp add: startsWith_def length_str take_str str_eq_iff)

lemma images_starts_with_image: "startsWith (str ''images'') (str ''image'')"
  by (simp add: startsWith_str)

lemma type_table_values:
  "get_property type_table k \<in>
     {lit ''text'', lit ''true_false'', lit ''number'', lit ''repeater'', Builtin k, Undefined}"
  by (simp add: get_property_def type_table_def)

text \<open>
  The rule for \<open>images\<close> never fires: a name that equals \<open>images\<close> starts with
  \<open>image\<close>, and the first rule has returned before. No property resolves to
  \<open>gallery\<close>.
\<close>

lemma never_gallery: "getAcfFieldType uc p \<noteq> lit ''gallery''"
proof -
  have "get_property type_table k \<noteq> lit ''gallery''" for k
    using type_table_values [of k] by (auto simp: str_eq_iff)
  then show ?thesis
    using images_starts_with_image by (auto simp: getAcfFieldType_def str_eq_iff)
qed

text \<open>
  Where no name rule matches and the table has no entry for the type, the resolver
  returns an inherited member of the table object or \<open>undefined\<close>.
\<close>

lemma unmapped_type:
  "\<not> name_rule (name p) \<Longrightarrow> fallback_table (toLowerCase uc (type p)) = None \<Longrightarrow>
   getAcfFieldType uc p =
     (if toLowerCase uc (type p) \<in> set object_prototype
      then Builtin (toLowerCase uc (type p)) else Undefined)"
  by (auto simp: getAcfFieldType_def name_rule_def fallback_table_def get_property_def
      type_table_def split: if_splits)

section \<open>The resolver: claims\<close>

text \<open>
  Claim C1. For every prop, \<open>getAcfFieldType\<close> applies the name rules in order, the
  first match winning and before any look at the type: a name that starts with
  \<open>image\<close> gives \<open>image\<close>, else \<open>button\<close> gives \<open>acfe_advanced_link\<close>, else
  \<open>body\<close> gives \<open>wysiwyg\<close>, else \<open>align\<close>, \<open>halign\<close>, \<open>valign\<close> and \<open>text-align\<close>
  give \<open>button_group\<close>, else \<open>buttons\<close> gives \<open>repeater\<close>, else \<open>images\<close> gives
  \<open>gallery\<close>; otherwise the result is the entry of the fallback table for the
  lower-cased type (and, for a type without an entry, what an object literal yields
  under that name). A name rule overrides the type: \<open>align\<close> of type \<open>array\<close> is a
  \<open>button_group\<close>; the type is compared without regard to case.
\<close>

theorem getAcfFieldType_first_match:
  "getAcfFieldType uc p =
     (case first_match name_rules (name p) of
        Some tag \<Rightarrow> lit tag
      | None \<Rightarrow>
          (case fallback_table (toLowerCase uc (type p)) of
             Some tag \<Rightarrow> lit tag
           | None \<Rightarrow> get_property [] (toLowerCase uc (type p)))) \<and>
   getAcfFieldType uc \<lparr>name = str ''align'', type = str ''array''\<rparr> = lit ''button_group'' \<and>
   getAcfFieldType uc \<lparr>name = str ''image1'', type = str ''boolean''\<rparr> = lit ''image'' \<and>
   getAcfFieldType uc \<lparr>name = str ''title'', type = str ''String''\<rparr> = lit ''text'' \<and>
   getAcfFieldType uc \<lparr>name = str ''title'', type = str ''STRING''\<rparr> = lit ''text'' \<and>
   getAcfFieldType uc \<lparr>name = str ''flag'', type = str ''Boolean''\<rparr> = lit ''true_false'' \<and>
   getAcfFieldType uc \<lparr>name = str ''count'', type = str ''number''\<rparr> = lit ''number'' \<and>
   getAcfFieldType uc \<lparr>name = str ''items'', type = str ''Array''\<rparr> = lit ''repeater''"
proof -
  have "getAcfFieldType uc p =
     (case first_match name_rules (name p) of
        Some tag \<Rightarrow> lit tag
      | None \<Rightarrow>
          (case fallback_table (toLowerCase uc (type p)) of
             Some tag \<Rightarrow> lit tag
           | None \<Rightarrow> get_property [] (toLowerCase uc (type p))))"
    by (simp add: getAcfFieldType_def name_rules_def fallback_table_def get_property_def
        type_table_def)
  moreover have
    "getAcfFieldType uc \<lparr>name = str ''align'', type = str ''array''\<rparr> = lit ''button_group''"
    "getAcfFieldType uc \<lparr>name = str ''image1'', type = str ''boolean''\<rparr> = lit ''image''"
    "getAcfFieldType uc \<lparr>name = str ''title'', type = str ''String''\<rparr> = lit ''text''"
    "getAcfFieldType uc \<lparr>name = str ''title'', type = str ''STRING''\<rparr> = lit ''text''"
    "getAcfFieldType uc \<lparr>name = str ''flag'', type = str ''Boolean''\<rparr> = lit ''true_false''"
    "getAcfFieldType uc \<lparr>name = str ''count'', type = str ''number''\<rparr> = lit ''number''"
    "getAcfFieldType uc \<lparr>name = str ''items'', type = str ''Array''\<rparr> = lit ''repeater''"
    by (simp_all add: getAcfFieldType_def js_eval)
  ultimately show ?thesis by simp
qed

text \<open>
  Claim C10. For every prop whose name matches a name rule (it starts with \<open>image\<close>,
  or it is one of \<open>button\<close>, \<open>body\<close>, \<open>align\<close>, \<open>halign\<close>, \<open>valign\<close>,
  \<open>text-align\<close>, \<open>buttons\<close>, \<open>images\<close>), \<open>getAcfFieldType\<close> returns a field type
  tag and does not read the type: any prop of the same name resolves to the same tag,
  whatever its type, whatever else it records and whatever the case tables.
\<close>

theorem getAcfFieldType_name_rule:
  "name_rule (name p) \<Longrightarrow> name q = name p \<Longrightarrow>
   getAcfFieldType uc p = getAcfFieldType uc' q \<and> getAcfFieldType uc p \<in> set field_type_tags"
  by (auto simp: getAcfFieldType_def name_rule_def field_type_tags_def)

theorem getAcfFieldType_name_rule_witness:
  "name_rule (str ''images'') \<and>
   getAcfFieldType plain_tables \<lparr>name = str ''images'', type = str ''Object''\<rparr> =
     getAcfFieldType plain_tables \<lparr>name = str ''images'', type = str ''Array''\<rparr> \<and>
   getAcfFieldType plain_tables \<lparr>name = str ''images'', type = str ''Object''\<rparr>
     \<in> set field_type_tags"
proof -
  have h: "name_rule (name \<lparr>name = str ''images'', type = str ''Object''\<rparr>)"
    by (simp add: name_rule_def images_starts_with_image)
  have e: "name \<lparr>name = str ''images'', type = str ''Array''\<rparr> =
      name \<lparr>name = str ''images'', type = str ''Object''\<rparr>"
    by simp
  from h have "name_rule (str ''images'')"
    by simp
  with getAcfFieldType_name_rule [OF h e, of plain_tables plain_tables]
  show ?thesis by blast
qed

section \<open>Facts about objects and the builder\<close>

lemma put_fresh: "k \<notin> fst ` set ob \<Longrightarrow> put k v ob = ob @ [(k, v)]"
  by (induction ob) auto

lemma spread_Nil: "spread ob [] = ob"
  by (simp add: spread_def)

lemma spread_Cons: "spread ob ((k, v) # ps) = spread (put k v ob) ps"
  by (simp add: spread_def)

text \<open>Spreading properties that the target does not have appends them in order.\<close>

lemma spread_fresh:
  "distinct (map fst src) \<Longrightarrow> fst ` set src \<inter> fst ` set ob = {} \<Longrightarrow> spread ob src = ob @ src"
proof (induction src arbitrary: ob)
  case Nil
  show ?case by (simp add: spread_Nil)
next
  case (Cons p src)
  obtain k v where p: "p = (k, v)" by (cases p)
  have "put k v ob = ob @ [(k, v)]"
    using Cons.prems p by (intro put_fresh) auto
  moreover have "spread (ob @ [(k, v)]) src = (ob @ [(k, v)]) @ src"
    using Cons.prems p by (intro Cons.IH) auto
  ultimately show ?case
    by (simp add: p spread_Cons)
qed

text \<open>
  A field config is label, name and type, then auxiliary settings under names of
  their own.
\<close>

lemma getAcfFieldConfig_shape:
  "\<exists>extra. getAcfFieldConfig uc p =
       [(str ''label'', Str (snakeCaseToWords uc (name p))),
        (str ''name'', Str (name p)),
        (str ''type'', getAcfFieldType uc p)] @ extra \<and>
     distinct (map fst extra) \<and>
     fst ` set extra \<subseteq> str ` {''tabs'', ''toolbar'', ''media_upload'', ''delay'', ''ui'',
        ''return_format'', ''preview_size'', ''layout'', ''choices''}"
proof -
  define config where "config =
       [(str ''label'', Str (snakeCaseToWords uc (name p))),
        (str ''name'', Str (name p)),
        (str ''type'', getAcfFieldType uc p)]"
  have "\<exists>extra. getAcfFieldConfig uc p = spread (spread [] config) extra \<and>
      distinct (map fst extra) \<and>
      fst ` set extra \<subseteq> str ` {''tabs'', ''toolbar'', ''media_upload'', ''delay'', ''ui'',
        ''return_format'', ''preview_size'', ''layout'', ''choices''}"
    unfolding getAcfFieldConfig_def Let_def config_def
    by (rule exI, rule conjI, rule refl) (auto simp: str_eq_iff)
  then obtain extra where cfg: "getAcfFieldConfig uc p = spread (spread [] config) extra"
    and d: "distinct (map fst extra)"
    and k: "fst ` set extra \<subseteq> str ` {''tabs'', ''toolbar'', ''media_upload'', ''delay'', ''ui'',
        ''return_format'', ''preview_size'', ''layout'', ''choices''}"
    by blast
  have "spread [] config = config"
    by (simp add: config_def spread_def str_eq_iff)
  moreover have "spread config extra = config @ extra"
    using d k by (intro spread_fresh) (auto simp: config_def str_eq_iff)
  ultimately show ?thesis
    using cfg d k by (auto simp: config_def)
qed

lemma getAcfFieldConfig_no_key: "map_of (getAcfFieldConfig uc p) (str ''key'') = None"
proof -
  obtain extra where "getAcfFieldConfig uc p =
       [(str ''label'', Str (snakeCaseToWords uc (name p))),
        (str ''name'', Str (name p)),
        (str ''type'', getAcfFieldType uc p)] @ extra"
     and "fst ` set extra \<subseteq> str ` {''tabs'', ''toolbar'', ''media_upload'', ''delay'', ''ui'',
        ''return_format'', ''preview_size'', ''layout'', ''choices''}"
    using getAcfFieldConfig_shape [of uc p] by blast
  then show ?thesis
    by (auto simp: map_of_eq_None_iff str_eq_iff)
qed

lemma getAcfFieldConfig_distinct: "distinct (map fst (getAcfFieldConfig uc p))"
proof -
  obtain extra where "getAcfFieldConfig uc p =
       [(str ''label'', Str (snakeCaseToWords uc (name p))),
        (str ''name'', Str (name p)),
        (str ''type'', getAcfFieldType uc p)] @ extra"
     and "distinct (map fst extra)"
     and "fst ` set extra \<subseteq> str ` {''tabs'', ''toolbar'', ''media_upload'', ''delay'', ''ui'',
        ''return_format'', ''preview_size'', ''layout'', ''choices''}"
    using getAcfFieldConfig_shape [of uc p] by blast
  then show ?thesis
    by (auto simp: str_eq_iff)
qed

lemma getAcfFieldConfig_name:
  "map_of (getAcfFieldConfig uc p) (str ''name'') = Some (Str (name p))"
  using getAcfFieldConfig_shape [of uc p] by (auto simp: str_eq_iff)

text \<open>
  Every prop that resolves to \<open>image\<close> gets the two settings of an image field. (A
  type \<open>gallery\<close> would get none, the builder tests for \<open>images\<close>; by
  \<open>never_gallery\<close> no prop has it.)
\<close>

lemma image_auxiliary:
  assumes "getAcfFieldType uc p = lit ''image''"
  shows "auxiliary (getAcfFieldConfig uc p) =
    [(str ''return_format'', lit ''array''), (str ''preview_size'', lit ''thumbnail'')]"
proof -
  have "get_property type_table k \<noteq> lit ''image''" for k
    using type_table_values [of k] by (auto simp: str_eq_iff)
  with assms have "startsWith (name p) (str ''image'')"
    by (auto simp: getAcfFieldType_def str_eq_iff split: if_splits)
  then have "name p \<notin> set (map str [''valign'', ''text-align'', ''halign'', ''align''])"
    by (auto simp: startsWith_str)
  with assms show ?thesis
    by (simp add: getAcfFieldConfig_def Let_def spread_def auxiliary_def str_eq_iff)
qed

section \<open>The builder: claims\<close>

text \<open>
  Claim C5. For every prop named \<open>valign\<close>, the built field config has the type
  \<open>button_group\<close> and its auxiliary settings are exactly the choices
  \<open>start: Top\<close>, \<open>center: Center\<close>, \<open>end: Bottom\<close>; for every prop named
  \<open>text-align\<close>, \<open>halign\<close> or \<open>align\<close>, they are exactly the choices
  \<open>left: Left\<close>, \<open>center: Center\<close>, \<open>right: Right\<close>. The choices stand in
  place of any other auxiliary setting.
\<close>

theorem getAcfFieldConfig_choices:
  "(name p = str ''valign'' \<longrightarrow>
      member (Obj (getAcfFieldConfig uc p)) (str ''type'') = lit ''button_group'' \<and>
      auxiliary (getAcfFieldConfig uc p) =
        [(str ''choices'',
          Obj [(str ''start'', lit ''Top''), (str ''center'', lit ''Center''),
               (str ''end'', lit ''Bottom'')])]) \<and>
   (name p \<in> set (map str [''text-align'', ''halign'', ''align'']) \<longrightarrow>
      auxiliary (getAcfFieldConfig uc p) =
        [(str ''choices'',
          Obj [(str ''left'', lit ''Left''), (str ''center'', lit ''Center''),
               (str ''right'', lit ''Right'')])])"
  by (auto simp: getAcfFieldConfig_def getAcfFieldType_def startsWith_str str_eq_iff
      Let_def spread_def auxiliary_def member_def get_property_def)

theorem getAcfFieldConfig_choices_witness:
  "member (Obj (getAcfFieldConfig plain_tables \<lparr>name = str ''valign'', type = str ''String''\<rparr>))
     (str ''type'') = lit ''button_group'' \<and>
   auxiliary (getAcfFieldConfig plain_tables \<lparr>name = str ''valign'', type = str ''String''\<rparr>) =
     [(str ''choices'',
       Obj [(str ''start'', lit ''Top''), (str ''center'', lit ''Center''),
            (str ''end'', lit ''Bottom'')])] \<and>
   auxiliary (getAcfFieldConfig plain_tables \<lparr>name = str ''align'', type = str ''Array''\<rparr>) =
     [(str ''choices'',
       Obj [(str ''left'', lit ''Left''), (str ''center'', lit ''Center''),
            (str ''right'', lit ''Right'')])]"
  using
    getAcfFieldConfig_choices [of "\<lparr>name = str ''valign'', type = str ''String''\<rparr>" plain_tables]
    getAcfFieldConfig_choices [of "\<lparr>name = str ''align'', type = str ''Array''\<rparr>" plain_tables]
  by (simp add: str_eq_iff)

text \<open>
  Claim C2. A prop whose resolved type is \<open>image\<close> or \<open>gallery\<close> gets the auxiliary
  settings \<open>return_format: array\<close> and \<open>preview_size: thumbnail\<close>, and a prop named
  \<open>images\<close> has them as a \<open>gallery\<close>. In the program a prop named \<open>images\<close> of type
  \<open>Array\<close> resolves to \<open>image\<close>, not to \<open>gallery\<close>: its name starts with \<open>image\<close>
  and the first rule returns. The config it gets is that of an image, with the two
  settings.
\<close>

theorem images_prop_is_image:
  "getAcfFieldType uc \<lparr>name = str ''images'', type = str ''Array''\<rparr> = lit ''image'' \<and>
   getAcfFieldType uc \<lparr>name = str ''images'', type = str ''Array''\<rparr> \<noteq> lit ''gallery'' \<and>
   getAcfFieldConfig uc \<lparr>name = str ''images'', type = str ''Array''\<rparr> =
     [(str ''label'', lit ''Images''),
      (str ''name'', lit ''images''),
      (str ''type'', lit ''image''),
      (str ''return_format'', lit ''array''),
      (str ''preview_size'', lit ''thumbnail'')]"
proof -
  have "getAcfFieldType uc \<lparr>name = str ''images'', type = str ''Array''\<rparr> = lit ''image''"
    by (simp add: getAcfFieldType_def js_eval)
  moreover have "lit ''image'' \<noteq> lit ''gallery''"
    by (simp add: str_eq_iff)
  moreover have "getAcfFieldConfig uc \<lparr>name = str ''images'', type = str ''Array''\<rparr> =
     [(str ''label'', lit ''Images''),
      (str ''name'', lit ''images''),
      (str ''type'', lit ''image''),
      (str ''return_format'', lit ''array''),
      (str ''preview_size'', lit ''thumbnail'')]"
    by (simp add: getAcfFieldConfig_def getAcfFieldType_def snakeCaseToWords_def js_eval)
  ultimately show ?thesis by simp
qed

text \<open>
  Claim C3. For every prop that no name rule matches and whose lower-cased type has no
  entry in the fallback table, the builder raises no error: it returns the field
  config of label, name and type with no auxiliary setting, and the type is
  \<open>undefined\<close>, or the member that the table object inherits under the name of the
  type. Read back from the written document the field has no type (for the type
  \<open>__proto__\<close>, the empty object).
\<close>

theorem unmapped_type_config:
  "\<not> name_rule (name p) \<Longrightarrow> fallback_table (toLowerCase uc (type p)) = None \<Longrightarrow>
   getAcfFieldConfig uc p =
     [(str ''label'', Str (snakeCaseToWords uc (name p))),
      (str ''name'', Str (name p)),
      (str ''type'',
       if toLowerCase uc (type p) \<in> set object_prototype
       then Builtin (toLowerCase uc (type p)) else Undefined)] \<and>
   member (json_roundtrip (Obj (getAcfFieldConfig uc p))) (str ''type'') =
     (if toLowerCase uc (type p) = str ''__proto__'' then Obj [] else Undefined)"
proof -
  assume n: "\<not> name_rule (name p)" and f: "fallback_table (toLowerCase uc (type p)) = None"
  let ?k = "toLowerCase uc (type p)"
  have t: "getAcfFieldType uc p = (if ?k \<in> set object_prototype then Builtin ?k else Undefined)"
    using n f by (rule unmapped_type)
  from n have nn: "name p \<noteq> str ''valign''" "name p \<noteq> str ''text-align''"
    "name p \<noteq> str ''halign''" "name p \<noteq> str ''align''"
    by (auto simp: name_rule_def)
  have c: "getAcfFieldConfig uc p =
     [(str ''label'', Str (snakeCaseToWords uc (name p))),
      (str ''name'', Str (name p)),
      (str ''type'', if ?k \<in> set object_prototype then Builtin ?k else Undefined)]"
    using nn by (simp add: getAcfFieldConfig_def t Let_def spread_def str_eq_iff)
  have "member (json_roundtrip (Obj (getAcfFieldConfig uc p))) (str ''type'') =
     (if ?k = str ''__proto__'' then Obj [] else Undefined)"
    by (simp add: c member_def get_property_def unwritten_def str_eq_iff object_prototype_def)
  with c show ?thesis by simp
qed

theorem unmapped_type_config_witness:
  "\<not> name_rule (str ''data'') \<and>
   fallback_table (toLowerCase plain_tables (str ''Object'')) = None \<and>
   getAcfFieldConfig plain_tables \<lparr>name = str ''data'', type = str ''Object''\<rparr> =
     [(str ''label'', lit ''Data''), (str ''name'', lit ''data''), (str ''type'', Undefined)] \<and>
   member
     (json_roundtrip
        (Obj (getAcfFieldConfig plain_tables \<lparr>name = str ''data'', type = str ''Object''\<rparr>)))
     (str ''type'') = Undefined"
proof -
  have h1: "\<not> name_rule (name \<lparr>name = str ''data'', type = str ''Object''\<rparr>)"
    by (simp add: name_rule_def startsWith_str str_eq_iff)
  have lo: "toLowerCase plain_tables (str ''Object'') = str ''object''"
    by (simp add: js_eval)
  have h2: "fallback_table
      (toLowerCase plain_tables (type \<lparr>name = str ''data'', type = str ''Object''\<rparr>)) = None"
    by (simp add: lo fallback_table_def str_eq_iff)
  have l: "snakeCaseToWords plain_tables (str ''data'') = str ''Data''"
    by (simp add: snakeCaseToWords_def js_eval)
  have o: "str ''object'' \<notin> set object_prototype" "str ''object'' \<noteq> str ''__proto__''"
    by (simp_all add: object_prototype_def str_eq_iff)
  from unmapped_type_config [OF h1 h2] h1 h2 show ?thesis
    by (clarsimp simp add: lo l o simp del: json_roundtrip.simps)
qed

text \<open>
  The construction does not fail: for a prop named \<open>data\<close> of type \<open>Object\<close> the
  resolver returns \<open>undefined\<close> and the builder returns a field config with that
  type; written and read back, the field has a label and a name and no type.
\<close>

theorem unmapped_type_is_undefined:
  "getAcfFieldType plain_tables \<lparr>name = str ''data'', type = str ''Object''\<rparr> = Undefined \<and>
   getAcfFieldConfig plain_tables \<lparr>name = str ''data'', type = str ''Object''\<rparr> =
     [(str ''label'', lit ''Data''), (str ''name'', lit ''data''), (str ''type'', Undefined)] \<and>
   json_roundtrip
     (Obj (getAcfFieldConfig plain_tables \<lparr>name = str ''data'', type = str ''Object''\<rparr>)) =
     Obj [(str ''label'', lit ''Data''), (str ''name'', lit ''data'')]"
proof -
  have t: "getAcfFieldType plain_tables \<lparr>name = str ''data'', type = str ''Object''\<rparr> =
      Undefined"
    by (simp add: getAcfFieldType_def js_eval)
  have c: "getAcfFieldConfig plain_tables \<lparr>name = str ''data'', type = str ''Object''\<rparr> =
     [(str ''label'', lit ''Data''), (str ''name'', lit ''data''), (str ''type'', Undefined)]"
    by (simp add: getAcfFieldConfig_def getAcfFieldType_def snakeCaseToWords_def js_eval)
  have "json_roundtrip
      (Obj [(str ''label'', lit ''Data''), (str ''name'', lit ''data''), (str ''type'', Undefined)]) =
     Obj [(str ''label'', lit ''Data''), (str ''name'', lit ''data'')]"
    by (simp add: unwritten_def)
  with t c show ?thesis by simp
qed

section \<open>Facts about the assembler\<close>

text \<open>
  No field config has a property \<open>key\<close>, so the spread into the field object leaves
  the key of the field first and as it was.
\<close>

lemma field_object:
  "spread [(str ''key'', v)] (getAcfFieldConfig uc p) = (str ''key'', v) # getAcfFieldConfig uc p"
proof -
  have "str ''key'' \<notin> fst ` set (getAcfFieldConfig uc p)"
    using getAcfFieldConfig_no_key [of uc p] by (simp add: map_of_eq_None_iff)
  then show ?thesis
    using spread_fresh [of "getAcfFieldConfig uc p" "[(str ''key'', v)]"]
    by (simp add: getAcfFieldConfig_distinct)
qed

text \<open>The loop pushes one field per prop, in the order of the props.\<close>

lemma push_fields_map:
  "push_fields uc gk ps fs =
     fs @ map (\<lambda>p. Obj ((str ''key'', Str (gk @ str ''_'' @ name p)) # getAcfFieldConfig uc p)) ps"
  by (induction ps arbitrary: fs) (simp_all add: field_object)

lemma parseComponent_config_fields:
  "parseComponent_config uc c =
     [(str ''key'', Str (groupKey uc (component.name c))),
      (str ''title'', Str (str ''Component: '' @ component.name c)),
      (str ''fields'',
         Arr (map (\<lambda>p. Obj ((str ''key'',
                               Str (groupKey uc (component.name c) @ str ''_'' @ name p))
                             # getAcfFieldConfig uc p))
                (props c))),
      (str ''label_placement'', lit ''left''),
      (str ''active'', Bool False),
      (str ''acfe_categories'', Obj [(str ''component'', lit ''component'')])]"
  by (simp add: parseComponent_config_def push_fields_map Let_def)

text \<open>What is written and read back keeps a property whose value is written.\<close>

lemma map_of_roundtrip:
  "map_of ob k = Some v \<Longrightarrow> \<not> unwritten v \<Longrightarrow>
   map_of (map (\<lambda>p. (fst p, json_roundtrip (snd p))) (filter (\<lambda>p. \<not> unwritten (snd p)) ob)) k =
     Some (json_roundtrip v)"
  by (induction ob) (auto split: if_splits)

lemma member_roundtrip:
  "map_of ob k = Some v \<Longrightarrow> \<not> unwritten v \<Longrightarrow>
   member (json_roundtrip (Obj ob)) k = json_roundtrip v"
  by (simp add: member_def get_property_def map_of_roundtrip)

lemma field_name_roundtrip:
  "member (json_roundtrip (Obj ((str ''key'', v) # getAcfFieldConfig uc p))) (str ''name'') =
     Str (name p)"
proof -
  have "map_of ((str ''key'', v) # getAcfFieldConfig uc p) (str ''name'') = Some (Str (name p))"
    by (simp add: getAcfFieldConfig_name str_eq_iff)
  moreover have "\<not> unwritten (Str (name p))"
    by (simp add: unwritten_def)
  ultimately have
    "member (json_roundtrip (Obj ((str ''key'', v) # getAcfFieldConfig uc p))) (str ''name'') =
       json_roundtrip (Str (name p))"
    by (rule member_roundtrip)
  also have "\<dots> = Str (name p)"
    by simp
  finally show ?thesis .
qed

text \<open>The end-to-end example of the specification.\<close>

lemma callout_document:
  "parseComponent_config uc callout =
     [(str ''key'', lit ''group_callout_component''),
      (str ''title'', lit ''Component: Callout''),
      (str ''fields'',
       Arr [Obj [(str ''key'', lit ''group_callout_component_body''),
                 (str ''label'', lit ''Body''),
                 (str ''name'', lit ''body''),
                 (str ''type'', lit ''wysiwyg''),
                 (str ''tabs'', lit ''visual''),
                 (str ''toolbar'', lit ''simple''),
                 (str ''media_upload'', Num 0),
                 (str ''delay'', Num 1)],
            Obj [(str ''key'', lit ''group_callout_component_imageHero''),
                 (str ''label'', lit ''Image Hero''),
                 (str ''name'', lit ''imageHero''),
                 (str ''type'', lit ''image''),
                 (str ''return_format'', lit ''array''),
                 (str ''preview_size'', lit ''thumbnail'')],
            Obj [(str ''key'', lit ''group_callout_component_align''),
                 (str ''label'', lit ''Align''),
                 (str ''name'', lit ''align''),
                 (str ''type'', lit ''button_group''),
                 (str ''choices'',
                  Obj [(str ''left'', lit ''Left''), (str ''center'', lit ''Center''),
                       (str ''right'', lit ''Right'')])]]),
      (str ''label_placement'', lit ''left''),
      (str ''active'', Bool False),
      (str ''acfe_categories'', Obj [(str ''component'', lit ''component'')])]"
  by (simp add: callout_def parseComponent_config_def groupKey_def getAcfFieldConfig_def
      getAcfFieldType_def snakeCaseToWords_def js_eval)

section \<open>The assembler: claims\<close>

text \<open>
  Claim C6. For every component name \<open>n\<close> and every list of props, the assembled
  group document has the key \<open>group_\<close>, the lower-cased \<open>n\<close>, \<open>_component\<close>; the
  title \<open>Component: \<close> followed by \<open>n\<close> as it is; the constants \<open>label_placement\<close>
  \<open>left\<close>, \<open>active\<close> \<open>false\<close> and \<open>acfe_categories\<close> \<open>component: component\<close>; and as
  \<open>fields\<close> one field per prop, in the order of the props, each with the key of the
  group, \<open>_\<close> and the name of the field as its key, followed by its field config. For
  \<open>HeroBanner\<close> the key is \<open>group_herobanner_component\<close>.
\<close>

theorem parseComponent_config_document:
  "parseComponent_config uc c =
     [(str ''key'', Str (groupKey uc (component.name c))),
      (str ''title'', Str (str ''Component: '' @ component.name c)),
      (str ''fields'',
         Arr (map (\<lambda>p. Obj ((str ''key'',
                               Str (groupKey uc (component.name c) @ str ''_'' @ name p))
                             # getAcfFieldConfig uc p))
                (props c))),
      (str ''label_placement'', lit ''left''),
      (str ''active'', Bool False),
      (str ''acfe_categories'', Obj [(str ''component'', lit ''component'')])] \<and>
   groupKey uc n = str ''group_'' @ toLowerCase uc n @ str ''_component'' \<and>
   groupKey uc (str ''HeroBanner'') = str ''group_herobanner_component'' \<and>
   member (Obj (parseComponent_config uc \<lparr>component.name = str ''HeroBanner'', props = []\<rparr>))
     (str ''title'') = lit ''Component: HeroBanner''"
proof -
  have "groupKey uc (str ''HeroBanner'') = str ''group_herobanner_component''"
    by (simp add: groupKey_def js_eval)
  moreover have
    "member (Obj (parseComponent_config uc \<lparr>component.name = str ''HeroBanner'', props = []\<rparr>))
       (str ''title'') = lit ''Component: HeroBanner''"
    by (simp add: parseComponent_config_fields member_def get_property_def str_eq_iff str_append)
  ultimately show ?thesis
    by (simp add: parseComponent_config_fields [of uc c] groupKey_def)
qed

text \<open>
  Claim C7. Round trip: for every list of props, the group document written and read
  back has fields whose names are the names of the props, index by index.
\<close>

theorem roundtrip_field_names:
  "map (\<lambda>f. member f (str ''name''))
     (elements (member (json_roundtrip (Obj (parseComponent_config uc c))) (str ''fields''))) =
   map (\<lambda>p. Str (name p)) (props c)"
proof -
  let ?fs = "map (\<lambda>p. Obj ((str ''key'',
                           Str (groupKey uc (component.name c) @ str ''_'' @ name p))
                         # getAcfFieldConfig uc p))
               (props c)"
  have "map_of (parseComponent_config uc c) (str ''fields'') = Some (Arr ?fs)"
    by (simp add: parseComponent_config_fields str_eq_iff)
  then have "member (json_roundtrip (Obj (parseComponent_config uc c))) (str ''fields'') =
      json_roundtrip (Arr ?fs)"
    by (rule member_roundtrip) (simp add: unwritten_def)
  moreover have "map (\<lambda>f. member f (str ''name'')) (elements (json_roundtrip (Arr ?fs))) =
      map (\<lambda>p. Str (name p)) (props c)"
    by (simp add: elements_def comp_def unwritten_def field_name_roundtrip
        del: json_roundtrip.simps(2))
  ultimately show ?thesis by simp
qed

end
